theory Spec2Isabelle
  imports Main "HOL-Library.Word"
begin

unbundle bit_operations_syntax

section \<open>Data of exchange.h and strategy.h\<close>

text \<open>
  A C \<open>int\<close> is a 32-bit word, read as two's complement by \<open>sint\<close>. A \<open>double\<close> is
  its IEEE-754 binary64 bit pattern. A pointer is an address, \<open>0\<close> being \<open>NULL\<close>.
\<close>

type_synonym c_int = "32 word"
type_synonym double = "64 word"
type_synonym ptr = nat

datatype exchange_type =
  EXCHANGE_OKEX | EXCHANGE_BINANCE | EXCHANGE_HUOBI | EXCHANGE_MEXC | EXCHANGE_BYBIT

record account_info =
  balance :: double
  stocks :: double
  frozen_balance :: double
  frozen_stocks :: double

text \<open>
  A depth level is a (price, amount) pair. The lists stand for the two C arrays of ten
  levels; \<open>main.c\<close> passes a depth on and never reads its levels.
\<close>

record depth_info =
  asks :: "(double \<times> double) list"
  bids :: "(double \<times> double) list"
  ask_count :: c_int
  bid_count :: c_int

record strategy_stats =
  total_profit :: double
  daily_profit :: double
  total_trades :: c_int
  successful_trades :: c_int
  max_drawdown :: double
  win_rate :: double
  last_trade_time :: "64 word"

text \<open>
  The configurations, with the fields that \<open>init_framework\<close> initialises; every other
  field of the C structs is zero there.
\<close>

record exchange_config =
  ex_type :: exchange_type
  maker_fee :: double
  taker_fee :: double

record strategy_config =
  st_name :: string
  st_version :: string
  initial_balance :: double
  risk_limit :: double
  max_position :: double
  min_profit :: double

text \<open>
  Modelled from the spec: \<open>webserver.h\<close>, which declares the status sink, is not among
  the sources. The spec has the sink as a collaborator that is created, initialised,
  started, told to broadcast and cleaned up; its configuration has the four fields that
  \<open>init_framework\<close> initialises.
\<close>

record webserver_config =
  port :: c_int
  host :: string
  max_connections :: c_int
  enable_ssl :: c_int

section \<open>Observable events and the process state\<close>

text \<open>
  Every call that leaves \<open>main.c\<close> (through a function-pointer table, a constructor or
  destructor, the C library, or the logger) is recorded as an event, with the arguments
  the code passes. The order of the events in the trace is the order of the calls.
\<close>

datatype event =
    Signal_Install c_int
  | Log string
  | Create_Exchange exchange_type
  | Exchange_Init ptr exchange_config
  | Create_Strategy string
  | Strategy_Init ptr strategy_config
  | Create_Webserver
  | Webserver_Init ptr webserver_config
  | Register_Strategy ptr ptr
  | Webserver_Start ptr
  | Strategy_Start ptr
  | Get_Depth ptr string
  | On_Tick ptr depth_info c_int
  | Get_Account ptr
  | On_Account ptr account_info
  | Get_Stats ptr
  | Broadcast ptr string
  | Usleep nat
  | Webserver_Cleanup ptr
  | Destroy_Webserver ptr
  | Strategy_Cleanup ptr
  | Destroy_Strategy ptr
  | Exchange_Cleanup ptr
  | Destroy_Exchange ptr

text \<open>The four file-scope variables of \<open>main.c\<close>, and the trace of events so far.\<close>

record state =
  g_running :: c_int
  g_strategy :: ptr
  g_exchange :: ptr
  g_webserver :: ptr
  trace :: "event list"

definition initial_state :: state where
  "initial_state =
     \<lparr>g_running = 1, g_strategy = 0, g_exchange = 0, g_webserver = 0, trace = []\<rparr>"

definition emit :: "event \<Rightarrow> state \<Rightarrow> state" where
  "emit ev s = s\<lparr>trace := trace s @ [ev]\<rparr>"

section \<open>Text rendering\<close>

definition digit :: "int \<Rightarrow> char" where
  "digit d = ''0123456789'' ! nat (d mod 10)"

text \<open>The decimal digits of a number that is not negative.\<close>

function dec :: "int \<Rightarrow> string" where
  "dec n = (if n < 10 then [digit n] else dec (n div 10) @ [digit (n mod 10)])"
  by pat_completeness auto
termination
  by (relation "measure nat") auto

declare dec.simps [simp del]

text \<open>The conversion \<open>%d\<close> of a C \<open>int\<close>.\<close>

definition fmt_d :: "c_int \<Rightarrow> string" where
  "fmt_d w = (if sint w < 0 then ''-'' @ dec (- sint w) else dec (sint w))"

text \<open>
  The conversion \<open>%.2f\<close> of a \<open>double\<close>, as the C library prints it: the exact value of
  the bit pattern, rounded to two decimals to nearest with ties to even; an infinity
  prints as \<open>inf\<close> and a NaN as \<open>nan\<close>, a set sign bit as a leading minus.
\<close>

definition d_sign :: "double \<Rightarrow> bool" where
  "d_sign d = bit d 63"

definition d_exponent :: "double \<Rightarrow> nat" where
  "d_exponent d = unat (drop_bit 52 d AND 0x7FF)"

definition d_fraction :: "double \<Rightarrow> int" where
  "d_fraction d = uint (d AND 0xFFFFFFFFFFFFF)"

definition round_even :: "int \<Rightarrow> int \<Rightarrow> int" where
  "round_even n d =
     (let q = n div d; r = n mod d
      in if d < 2 * r \<or> (2 * r = d \<and> odd q) then q + 1 else q)"

text \<open>The magnitude of a finite double in hundredths, rounded.\<close>

definition d_hundredths :: "double \<Rightarrow> int" where
  "d_hundredths d =
     (let e = d_exponent d;
          m = (if e = 0 then d_fraction d else 2 ^ 52 + d_fraction d);
          k = (if e = 0 then 1 else e)
      in if 1075 \<le> k then 100 * m * 2 ^ (k - 1075)
         else round_even (100 * m) (2 ^ (1075 - k)))"

definition fmt_f2 :: "double \<Rightarrow> string" where
  "fmt_f2 d =
     (if d_sign d then ''-'' else '''') @
     (if d_exponent d = 2047 then (if d_fraction d = 0 then ''inf'' else ''nan'')
      else let c = d_hundredths d
           in dec (c div 100) @ ''.'' @ [digit (c mod 100 div 10), digit (c mod 10)])"

text \<open>
  The format of the status record in \<open>main_loop\<close>:
  \<^verbatim>\<open>{"total_profit":%.2f,"daily_profit":%.2f,"trades":%d}\<close>
  applied to \<open>stats.total_profit\<close>, \<open>stats.daily_profit\<close> and \<open>stats.total_trades\<close>.
\<close>

definition quoted :: "string \<Rightarrow> string" where
  "quoted k = CHR 0x22 # k @ [CHR 0x22]"

definition status_format :: "strategy_stats \<Rightarrow> string" where
  "status_format stats =
     ''{'' @ quoted ''total_profit'' @ '':'' @ fmt_f2 (total_profit stats) @
     '','' @ quoted ''daily_profit'' @ '':'' @ fmt_f2 (daily_profit stats) @
     '','' @ quoted ''trades'' @ '':'' @ fmt_d (total_trades stats) @ ''}''"

text \<open>
  Modelled from the spec: \<open>snLogf\<close> is called by \<open>main_loop\<close> and defined in none of
  the sources. The spec has the loop "serialize a fixed-shape status record ... to text";
  the call passes the buffer \<open>char status[256]\<close> and \<open>sizeof(status)\<close>, as a call of
  C's \<open>snprintf\<close> does, so the buffer receives the rendered text cut to one character
  less than that size (and the terminator).
\<close>

definition snLogf :: "nat \<Rightarrow> string \<Rightarrow> string" where
  "snLogf n rendered = take (n - 1) rendered"

text \<open>
  Modelled from the spec: \<open>Logf\<close> is called throughout \<open>main.c\<close> and defined in none of
  the sources. The spec has failures and signals "logged"; a call is recorded as a
  \<open>Log\<close> event carrying the rendered text.
\<close>

definition Logf :: "string \<Rightarrow> state \<Rightarrow> state" where
  "Logf rendered s = emit (Log rendered) s"

definition newline :: string where
  "newline = [CHR 0x0A]"

section \<open>Signals\<close>

definition SIGINT :: c_int where
  "SIGINT = 2"

definition SIGTERM :: c_int where
  "SIGTERM = 15"

definition handle_signal :: "c_int \<Rightarrow> state \<Rightarrow> state" where
  "handle_signal sig s =
     (Logf (''Received signal '' @ fmt_d sig @ '', shutting down...'' @ newline) s)
       \<lparr>g_running := 0\<rparr>"

text \<open>
  A signal is asynchronous. The environment says which signals, of the two that \<open>main\<close>
  installs the handler for, are delivered at which point of the program;
  \<open>handle_signal\<close> runs once for each, in order. The handlers stay installed after a
  delivery. The points are the calls that leave \<open>main.c\<close>: the signals of a point are
  delivered after the previous call and before the named one.
\<close>

definition deliver :: "c_int list \<Rightarrow> state \<Rightarrow> state" where
  "deliver sigs s = fold handle_signal sigs s"

definition call :: "c_int list \<Rightarrow> event \<Rightarrow> state \<Rightarrow> state" where
  "call sigs ev s = emit ev (deliver sigs s)"

datatype boot_point =
    B_create_exchange | B_exchange_init | B_create_strategy | B_strategy_init
  | B_create_webserver | B_webserver_init | B_register_strategy
  | B_webserver_start | B_strategy_start | B_main_loop

datatype cycle_point =
    L_get_depth | L_on_tick | L_get_account | L_on_account
  | L_get_stats | L_broadcast | L_usleep | L_loop_test

text \<open>
  What the collaborators answer during startup: the pointers the constructors return,
  the return codes of the \<open>init\<close> and \<open>start\<close> entries, and the signals. The signals of
  \<open>B_main_loop\<close> arrive after the strategy has started and before the first test of
  \<open>g_running\<close>.
\<close>

record boot_env =
  create_exchange_ret :: ptr
  exchange_init_ret :: c_int
  create_strategy_ret :: ptr
  strategy_init_ret :: c_int
  create_webserver_ret :: ptr
  webserver_init_ret :: c_int
  webserver_start_ret :: c_int
  strategy_start_ret :: c_int
  boot_signals :: "boot_point \<Rightarrow> c_int list"

text \<open>
  What the collaborators answer during one cycle of the loop: return codes, the contents
  of the output buffers after the calls, and the signals. The signals of \<open>L_get_depth\<close>
  arrive after the test of \<open>g_running\<close> that starts the cycle, those of \<open>L_loop_test\<close>
  during or after the sleep and before the next test.
\<close>

record cycle_env =
  get_depth_ret :: c_int
  depth_out :: depth_info
  on_tick_ret :: c_int
  get_account_ret :: c_int
  account_out :: account_info
  stats_out :: strategy_stats
  signals :: "cycle_point \<Rightarrow> c_int list"

section \<open>main.c\<close>

definition ex_config :: exchange_config where
  "ex_config =
     \<lparr>ex_type = EXCHANGE_OKEX, maker_fee = 0x3F50624DD2F1A9FC, taker_fee = 0x3F60624DD2F1A9FC\<rparr>"

definition st_config :: strategy_config where
  "st_config =
     \<lparr>st_name = ''ArbitrageStrategy'', st_version = ''1.0.0'',
      initial_balance = 0x40C3880000000000, risk_limit = 0x408F400000000000,
      max_position = 0x4059000000000000, min_profit = 0x3F50624DD2F1A9FC\<rparr>"

definition web_config :: webserver_config where
  "web_config = \<lparr>port = 8080, host = ''0.0.0.0'', max_connections = 100, enable_ssl = 0\<rparr>"

text \<open>
  \<open>init_framework\<close>: each \<open>||\<close> evaluates its right operand, the \<open>init\<close> call, only when
  the constructor returned a pointer that is not \<open>NULL\<close>.
\<close>

definition init_framework :: "boot_env \<Rightarrow> state \<Rightarrow> c_int \<times> state" where
  "init_framework b s =
     (let s1 = (call (boot_signals b B_create_exchange) (Create_Exchange EXCHANGE_OKEX) s)
                 \<lparr>g_exchange := create_exchange_ret b\<rparr>
      in if g_exchange s1 = 0
         then (- 1, Logf (''Failed to initialize exchange'' @ newline) s1)
         else
      let s2 = call (boot_signals b B_exchange_init) (Exchange_Init (g_exchange s1) ex_config) s1
      in if exchange_init_ret b \<noteq> 0
         then (- 1, Logf (''Failed to initialize exchange'' @ newline) s2)
         else
      let s3 = (call (boot_signals b B_create_strategy) (Create_Strategy ''arbitrage'') s2)
                 \<lparr>g_strategy := create_strategy_ret b\<rparr>
      in if g_strategy s3 = 0
         then (- 1, Logf (''Failed to initialize strategy'' @ newline) s3)
         else
      let s4 = call (boot_signals b B_strategy_init) (Strategy_Init (g_strategy s3) st_config) s3
      in if strategy_init_ret b \<noteq> 0
         then (- 1, Logf (''Failed to initialize strategy'' @ newline) s4)
         else
      let s5 = (call (boot_signals b B_create_webserver) Create_Webserver s4)
                 \<lparr>g_webserver := create_webserver_ret b\<rparr>
      in if g_webserver s5 = 0
         then (- 1, Logf (''Failed to initialize web server'' @ newline) s5)
         else
      let s6 = call (boot_signals b B_webserver_init) (Webserver_Init (g_webserver s5) web_config) s5
      in if webserver_init_ret b \<noteq> 0
         then (- 1, Logf (''Failed to initialize web server'' @ newline) s6)
         else
      (0, call (boot_signals b B_register_strategy)
            (Register_Strategy (g_webserver s6) (g_strategy s6)) s6))"

definition cleanup :: "state \<Rightarrow> state" where
  "cleanup s =
     (let s1 = (if g_webserver s \<noteq> 0
                then emit (Destroy_Webserver (g_webserver s))
                       (emit (Webserver_Cleanup (g_webserver s)) s)
                else s);
          s2 = (if g_strategy s1 \<noteq> 0
                then emit (Destroy_Strategy (g_strategy s1))
                       (emit (Strategy_Cleanup (g_strategy s1)) s1)
                else s1)
      in if g_exchange s2 \<noteq> 0
         then emit (Destroy_Exchange (g_exchange s2))
                (emit (Exchange_Cleanup (g_exchange s2)) s2)
         else s2)"

text \<open>
  The body of the \<open>while\<close> loop of \<open>main_loop\<close>. The value that \<open>on_tick\<close> returns
  (\<open>on_tick_ret\<close>) is not read.
\<close>

definition cycle :: "cycle_env \<Rightarrow> state \<Rightarrow> state" where
  "cycle e s =
     (let s1 = call (signals e L_get_depth) (Get_Depth (g_exchange s) ''BTC_USDT'') s;
          s2 = (if get_depth_ret e = 0
                then call (signals e L_on_tick) (On_Tick (g_strategy s1) (depth_out e) 1) s1
                else deliver (signals e L_on_tick) s1);
          s3 = call (signals e L_get_account) (Get_Account (g_exchange s2)) s2;
          s4 = (if get_account_ret e = 0
                then call (signals e L_on_account) (On_Account (g_strategy s3) (account_out e)) s3
                else deliver (signals e L_on_account) s3);
          s5 = call (signals e L_get_stats) (Get_Stats (g_strategy s4)) s4;
          status = snLogf 256 (status_format (stats_out e));
          s6 = call (signals e L_broadcast) (Broadcast (g_webserver s5) status) s5;
          s7 = call (signals e L_usleep) (Usleep 100000) s6
      in deliver (signals e L_loop_test) s7)"

text \<open>
  \<open>main_loop\<close>: \<open>while (g_running)\<close>. The list holds what the environment answers in
  the successive cycles, one element a cycle. The loop may run forever; the result is
  \<open>(True, s)\<close> when the loop has exited in state \<open>s\<close>, and \<open>(False, s)\<close> when it is still
  running in state \<open>s\<close> after the cycles that the list describes.
\<close>

fun main_loop :: "cycle_env list \<Rightarrow> state \<Rightarrow> bool \<times> state" where
  "main_loop [] s = (g_running s = 0, s)"
| "main_loop (e # es) s = (if g_running s \<noteq> 0 then main_loop es (cycle e s) else (True, s))"

text \<open>
  \<open>main\<close>: the exit code is \<open>Some c\<close> when \<open>main\<close> returns \<open>c\<close>, and \<open>None\<close> when the loop
  is still running after the cycles given. A signal that arrives before both handlers
  are installed is not handled by \<open>main.c\<close> and is outside this model, as are signals
  during \<open>cleanup\<close>, which never reads \<open>g_running\<close>.
\<close>

definition main_prog :: "boot_env \<Rightarrow> cycle_env list \<Rightarrow> c_int option \<times> state" where
  "main_prog b cs =
     (let s0 = emit (Signal_Install SIGTERM) (emit (Signal_Install SIGINT) initial_state);
          (rc, s1) = init_framework b s0
      in if rc \<noteq> 0
         then (Some 1, cleanup (Logf (''Framework initialization failed'' @ newline) s1))
         else
      let s2 = call (boot_signals b B_webserver_start) (Webserver_Start (g_webserver s1)) s1
      in if webserver_start_ret b \<noteq> 0
         then (Some 1, cleanup (Logf (''Failed to start web server'' @ newline) s2))
         else
      let s3 = call (boot_signals b B_strategy_start) (Strategy_Start (g_strategy s2)) s2
      in if strategy_start_ret b \<noteq> 0
         then (Some 1, cleanup (Logf (''Failed to start strategy'' @ newline) s3))
         else
      let s4 = Logf (''Quantitative trading framework started'' @ newline) s3;
          (exited, s5) = main_loop cs (deliver (boot_signals b B_main_loop) s4)
      in if exited then (Some 0, cleanup s5) else (None, s5))"

section \<open>Notions for stating the properties\<close>

text \<open>The line that \<open>handle_signal\<close> logs for each signal of a list.\<close>

definition signal_logs :: "c_int list \<Rightarrow> event list" where
  "signal_logs sigs =
     map (\<lambda>sg. Log (''Received signal '' @ fmt_d sg @ '', shutting down...'' @ newline)) sigs"

definition is_log :: "event \<Rightarrow> bool" where
  "is_log ev = (case ev of Log _ \<Rightarrow> True | _ \<Rightarrow> False)"

text \<open>The events of a trace that are not log lines.\<close>

definition calls :: "event list \<Rightarrow> event list" where
  "calls evs = filter (\<lambda>ev. \<not> is_log ev) evs"

text \<open>The events that a run from state \<open>s\<close> to state \<open>s'\<close> has appended to the trace.\<close>

definition added :: "state \<Rightarrow> state \<Rightarrow> event list" where
  "added s s' = drop (length (trace s)) (trace s')"

text \<open>
  The iterations that \<open>main_loop\<close> executes on the given cycles from a state: each with
  the state in which it starts.
\<close>

fun cycle_starts :: "cycle_env list \<Rightarrow> state \<Rightarrow> (cycle_env \<times> state) list" where
  "cycle_starts [] s = []"
| "cycle_starts (e # es) s =
     (if g_running s \<noteq> 0 then (e, s) # cycle_starts es (cycle e s) else [])"

definition is_broadcast :: "event \<Rightarrow> bool" where
  "is_broadcast ev = (case ev of Broadcast _ _ \<Rightarrow> True | _ \<Rightarrow> False)"

text \<open>The calls that only the body of the loop makes.\<close>

definition is_cycle_call :: "event \<Rightarrow> bool" where
  "is_cycle_call ev =
     (case ev of
        Get_Depth _ _ \<Rightarrow> True | On_Tick _ _ _ \<Rightarrow> True | Get_Account _ \<Rightarrow> True
      | On_Account _ _ \<Rightarrow> True | Get_Stats _ \<Rightarrow> True | Broadcast _ _ \<Rightarrow> True
      | Usleep _ \<Rightarrow> True | _ \<Rightarrow> False)"

definition is_create :: "event \<Rightarrow> bool" where
  "is_create ev =
     (case ev of
        Create_Exchange _ \<Rightarrow> True | Create_Strategy _ \<Rightarrow> True | Create_Webserver \<Rightarrow> True
      | _ \<Rightarrow> False)"

definition is_teardown :: "event \<Rightarrow> bool" where
  "is_teardown ev =
     (case ev of
        Webserver_Cleanup _ \<Rightarrow> True | Destroy_Webserver _ \<Rightarrow> True
      | Strategy_Cleanup _ \<Rightarrow> True | Destroy_Strategy _ \<Rightarrow> True
      | Exchange_Cleanup _ \<Rightarrow> True | Destroy_Exchange _ \<Rightarrow> True | _ \<Rightarrow> False)"

text \<open>Every startup step succeeds: no constructor returns \<open>NULL\<close>, every code is 0.\<close>

definition startup_ok :: "boot_env \<Rightarrow> bool" where
  "startup_ok b =
     (create_exchange_ret b \<noteq> 0 \<and> exchange_init_ret b = 0 \<and>
      create_strategy_ret b \<noteq> 0 \<and> strategy_init_ret b = 0 \<and>
      create_webserver_ret b \<noteq> 0 \<and> webserver_init_ret b = 0 \<and>
      webserver_start_ret b = 0 \<and> strategy_start_ret b = 0)"

text \<open>A component is up when its constructor returned a pointer and its \<open>init\<close> returned 0.\<close>

definition exchange_up :: "boot_env \<Rightarrow> bool" where
  "exchange_up b = (create_exchange_ret b \<noteq> 0 \<and> exchange_init_ret b = 0)"

definition strategy_up :: "boot_env \<Rightarrow> bool" where
  "strategy_up b = (create_strategy_ret b \<noteq> 0 \<and> strategy_init_ret b = 0)"

text \<open>
  The constructor calls of a startup, in the words of the spec: exchange, then strategy,
  then sink, each one only when the component before it is up.
\<close>

definition creations :: "boot_env \<Rightarrow> event list" where
  "creations b =
     Create_Exchange EXCHANGE_OKEX #
     (if exchange_up b
      then Create_Strategy ''arbitrage'' # (if strategy_up b then [Create_Webserver] else [])
      else [])"

text \<open>
  The teardown of a state, in the words of the spec: sink, then strategy, then exchange,
  each component cleaned up and destroyed only when its pointer is not \<open>NULL\<close>.
\<close>

definition teardown :: "state \<Rightarrow> event list" where
  "teardown s =
     (if g_webserver s \<noteq> 0
      then [Webserver_Cleanup (g_webserver s), Destroy_Webserver (g_webserver s)] else []) @
     (if g_strategy s \<noteq> 0
      then [Strategy_Cleanup (g_strategy s), Destroy_Strategy (g_strategy s)] else []) @
     (if g_exchange s \<noteq> 0
      then [Exchange_Cleanup (g_exchange s), Destroy_Exchange (g_exchange s)] else [])"

text \<open>The state in which \<open>main\<close> calls \<open>main_loop\<close>, when every startup step has succeeded.\<close>

definition loop_entry :: "boot_env \<Rightarrow> state" where
  "loop_entry b =
     (let s0 = emit (Signal_Install SIGTERM) (emit (Signal_Install SIGINT) initial_state);
          s1 = snd (init_framework b s0);
          s2 = call (boot_signals b B_webserver_start) (Webserver_Start (g_webserver s1)) s1;
          s3 = call (boot_signals b B_strategy_start) (Strategy_Start (g_strategy s2)) s2;
          s4 = Logf (''Quantitative trading framework started'' @ newline) s3
      in deliver (boot_signals b B_main_loop) s4)"

text \<open>A depth poll for another symbol, or a delivery to \<open>on_tick\<close> with another count.\<close>

definition bad_depth_args :: "event \<Rightarrow> bool" where
  "bad_depth_args ev =
     (case ev of Get_Depth _ nm \<Rightarrow> nm \<noteq> ''BTC_USDT'' | On_Tick _ _ n \<Rightarrow> n \<noteq> 1 | _ \<Rightarrow> False)"

section \<open>Sample inputs\<close>

text \<open>
  A depth with the single ask (20000.0, 0.5), the other entries of the two arrays being
  zero, and an account with 10000.0 USDT.
\<close>

definition sample_depth :: depth_info where
  "sample_depth =
     \<lparr>asks = (0x40D3880000000000, 0x3FE0000000000000) # replicate 9 (0, 0),
      bids = replicate 10 (0, 0), ask_count = 1, bid_count = 0\<rparr>"

definition sample_account :: account_info where
  "sample_account =
     \<lparr>balance = 0x40C3880000000000, stocks = 0, frozen_balance = 0, frozen_stocks = 0\<rparr>"

text \<open>Statistics with a total profit of 1234.565, a daily profit of 0.125 and 42 trades.\<close>

definition sample_stats :: strategy_stats where
  "sample_stats =
     \<lparr>total_profit = 0x40934A428F5C28F6, daily_profit = 0x3FC0000000000000,
      total_trades = 42, successful_trades = 30, max_drawdown = 0, win_rate = 0,
      last_trade_time = 0\<rparr>"

text \<open>The same statistics with a total profit of 1e300.\<close>

definition huge_stats :: strategy_stats where
  "huge_stats = sample_stats\<lparr>total_profit := 0x7E37E43C8800759C\<rparr>"

text \<open>A cycle in which both polls succeed and no signal arrives.\<close>

definition good_cycle :: cycle_env where
  "good_cycle =
     \<lparr>get_depth_ret = 0, depth_out = sample_depth, on_tick_ret = 0, get_account_ret = 0,
      account_out = sample_account, stats_out = sample_stats, signals = (\<lambda>p. [])\<rparr>"

text \<open>A startup in which every step succeeds and no signal arrives.\<close>

definition good_boot :: boot_env where
  "good_boot =
     \<lparr>create_exchange_ret = 0x1000, exchange_init_ret = 0,
      create_strategy_ret = 0x2000, strategy_init_ret = 0,
      create_webserver_ret = 0x3000, webserver_init_ret = 0,
      webserver_start_ret = 0, strategy_start_ret = 0, boot_signals = (\<lambda>p. [])\<rparr>"

text \<open>The state in which a successful startup leaves the variables, with an empty trace.\<close>

definition started_state :: state where
  "started_state =
     \<lparr>g_running = 1, g_strategy = 0x2000, g_exchange = 0x1000, g_webserver = 0x3000,
      trace = []\<rparr>"

text \<open>A cycle in which two interrupts arrive back to back before the account poll.\<close>

definition interrupted_cycle :: cycle_env where
  "interrupted_cycle =
     good_cycle\<lparr>signals := (\<lambda>p. if p = L_get_account then [SIGINT, SIGINT] else [])\<rparr>"

text \<open>A cycle in which both polls fail with -1.\<close>

definition failed_polls_cycle :: cycle_env where
  "failed_polls_cycle = good_cycle\<lparr>get_depth_ret := - 1, get_account_ret := - 1\<rparr>"

text \<open>A cycle in which the strategy reports \<open>huge_stats\<close>.\<close>

definition huge_cycle :: cycle_env where
  "huge_cycle = good_cycle\<lparr>stats_out := huge_stats\<rparr>"

text \<open>A startup in which the strategy's \<open>init\<close> fails with -1.\<close>

definition failing_boot :: boot_env where
  "failing_boot = good_boot\<lparr>strategy_init_ret := - 1\<rparr>"

text \<open>A successful startup during which a terminate signal arrives, before the strategy's \<open>init\<close>.\<close>

definition signalled_boot :: boot_env where
  "signalled_boot =
     good_boot\<lparr>boot_signals := (\<lambda>p. if p = B_strategy_init then [SIGTERM] else [])\<rparr>"

section \<open>Basic facts\<close>

lemma emit_simps [simp]:
  "trace (emit ev s) = trace s @ [ev]"
  "g_running (emit ev s) = g_running s"
  "g_exchange (emit ev s) = g_exchange s"
  "g_strategy (emit ev s) = g_strategy s"
  "g_webserver (emit ev s) = g_webserver s"
  by (simp_all add: emit_def)

lemma handle_signal_simps [simp]:
  "trace (handle_signal sg s) = trace s @ signal_logs [sg]"
  "g_running (handle_signal sg s) = 0"
  "g_exchange (handle_signal sg s) = g_exchange s"
  "g_strategy (handle_signal sg s) = g_strategy s"
  "g_webserver (handle_signal sg s) = g_webserver s"
  by (simp_all add: handle_signal_def Logf_def signal_logs_def)

lemma deliver_Nil [simp]: "deliver [] s = s"
  by (simp add: deliver_def)

lemma deliver_Cons [simp]: "deliver (sg # sigs) s = deliver sigs (handle_signal sg s)"
  by (simp add: deliver_def)

lemma signal_logs_Cons: "signal_logs (sg # sigs) = signal_logs [sg] @ signal_logs sigs"
  by (simp add: signal_logs_def)

lemma signal_logs_Nil [simp]: "signal_logs [] = []"
  by (simp add: signal_logs_def)

lemma deliver_trace [simp]: "trace (deliver sigs s) = trace s @ signal_logs sigs"
proof (induction sigs arbitrary: s)
  case Nil
  show ?case by simp
next
  case (Cons sg sigs)
  show ?case using Cons.IH [of "handle_signal sg s"]
    by (simp add: signal_logs_Cons [of sg sigs])
qed

lemma deliver_running [simp]:
  "g_running (deliver sigs s) = (if sigs = [] then g_running s else 0)"
  by (induction sigs arbitrary: s) simp_all

lemma deliver_pointers [simp]:
  "g_exchange (deliver sigs s) = g_exchange s"
  "g_strategy (deliver sigs s) = g_strategy s"
  "g_webserver (deliver sigs s) = g_webserver s"
  by (induction sigs arbitrary: s) simp_all

lemma call_simps [simp]:
  "trace (call sigs ev s) = trace s @ signal_logs sigs @ [ev]"
  "g_running (call sigs ev s) = (if sigs = [] then g_running s else 0)"
  "g_exchange (call sigs ev s) = g_exchange s"
  "g_strategy (call sigs ev s) = g_strategy s"
  "g_webserver (call sigs ev s) = g_webserver s"
  by (simp_all add: call_def)

lemma Logf_simps [simp]:
  "trace (Logf m s) = trace s @ [Log m]"
  "g_running (Logf m s) = g_running s"
  "g_exchange (Logf m s) = g_exchange s"
  "g_strategy (Logf m s) = g_strategy s"
  "g_webserver (Logf m s) = g_webserver s"
  by (simp_all add: Logf_def)

subsection \<open>One cycle\<close>

lemma cycle_pointers [simp]:
  "g_exchange (cycle e s) = g_exchange s"
  "g_strategy (cycle e s) = g_strategy s"
  "g_webserver (cycle e s) = g_webserver s"
  by (simp_all add: cycle_def Let_def)

text \<open>The events of a cycle, with the log lines of the signals where they arrive.\<close>

lemma cycle_trace:
  "trace (cycle e s) = trace s @
     signal_logs (signals e L_get_depth) @ [Get_Depth (g_exchange s) ''BTC_USDT''] @
     signal_logs (signals e L_on_tick) @
     (if get_depth_ret e = 0 then [On_Tick (g_strategy s) (depth_out e) 1] else []) @
     signal_logs (signals e L_get_account) @ [Get_Account (g_exchange s)] @
     signal_logs (signals e L_on_account) @
     (if get_account_ret e = 0 then [On_Account (g_strategy s) (account_out e)] else []) @
     signal_logs (signals e L_get_stats) @ [Get_Stats (g_strategy s)] @
     signal_logs (signals e L_broadcast) @
     [Broadcast (g_webserver s) (snLogf 256 (status_format (stats_out e)))] @
     signal_logs (signals e L_usleep) @ [Usleep 100000] @
     signal_logs (signals e L_loop_test)"
  by (simp add: cycle_def Let_def)

lemma cycle_point_all:
  "(\<forall>p. P p) = (P L_get_depth \<and> P L_on_tick \<and> P L_get_account \<and> P L_on_account
     \<and> P L_get_stats \<and> P L_broadcast \<and> P L_usleep \<and> P L_loop_test)"
proof
  assume a: "P L_get_depth \<and> P L_on_tick \<and> P L_get_account \<and> P L_on_account
     \<and> P L_get_stats \<and> P L_broadcast \<and> P L_usleep \<and> P L_loop_test"
  show "\<forall>p. P p"
  proof
    fix p show "P p" using a by (cases p) simp_all
  qed
qed simp

text \<open>A cycle clears \<open>g_running\<close> exactly when a signal arrives in it.\<close>

lemma cycle_running:
  "g_running (cycle e s) = (if \<forall>p. signals e p = [] then g_running s else 0)"
  unfolding cycle_point_all by (simp add: cycle_def Let_def)

lemma trace_cycle_prefix: "take (length (trace s)) (trace (cycle e s)) = trace s"
  by (simp add: cycle_trace)

lemma calls_signal_logs [simp]: "calls (signal_logs sigs) = []"
  by (simp add: calls_def signal_logs_def is_log_def)

lemma calls_append [simp]: "calls (xs @ ys) = calls xs @ calls ys"
  by (simp add: calls_def)

lemma calls_Cons [simp]: "calls (ev # evs) = (if is_log ev then calls evs else ev # calls evs)"
  by (simp add: calls_def)

lemma calls_Nil [simp]: "calls [] = []"
  by (simp add: calls_def)

lemma is_log_simps [simp]:
  "is_log (Log m)" "\<not> is_log (Get_Depth p nm)" "\<not> is_log (On_Tick p d n)"
  "\<not> is_log (Get_Account p)" "\<not> is_log (On_Account p a)" "\<not> is_log (Get_Stats p)"
  "\<not> is_log (Broadcast p t)" "\<not> is_log (Usleep k)"
  by (simp_all add: is_log_def)

subsection \<open>The loop\<close>

text \<open>The trace of the loop is the traces of its iterations, one after the other.\<close>

lemma main_loop_trace:
  "trace (snd (main_loop cs s)) =
     trace s @ concat (map (\<lambda>(e, t). added t (cycle e t)) (cycle_starts cs s))"
proof (induction cs arbitrary: s)
  case Nil
  show ?case by simp
next
  case (Cons e es)
  have "trace (cycle e s) = trace s @ added s (cycle e s)"
    unfolding added_def using trace_cycle_prefix [of s e]
    by (metis append_take_drop_id)
  then show ?case using Cons.IH [of "cycle e s"] by simp
qed

lemma main_loop_added:
  "added s (snd (main_loop cs s)) =
     concat (map (\<lambda>(e, t). added t (cycle e t)) (cycle_starts cs s))"
  by (simp add: added_def main_loop_trace)

lemma filter_log_signal_logs [simp]: "filter is_log (signal_logs sigs) = signal_logs sigs"
  by (simp add: signal_logs_def is_log_def)



lemma cleanup_simps [simp]:
  "trace (cleanup s) = trace s @ teardown s"
  "g_running (cleanup s) = g_running s"
  "g_exchange (cleanup s) = g_exchange s"
  "g_strategy (cleanup s) = g_strategy s"
  "g_webserver (cleanup s) = g_webserver s"
  by (simp_all add: cleanup_def teardown_def Let_def)

lemma main_prog_started:
  "startup_ok b \<Longrightarrow>
   main_prog b cs =
     (if fst (main_loop cs (loop_entry b))
      then (Some 0, cleanup (snd (main_loop cs (loop_entry b))))
      else (None, snd (main_loop cs (loop_entry b))))"
  by (simp add: main_prog_def init_framework_def startup_ok_def loop_entry_def Let_def
      split: prod.splits)

lemma main_prog_failed: "\<not> startup_ok b \<Longrightarrow> fst (main_prog b cs) = Some 1"
  by (auto simp: main_prog_def init_framework_def startup_ok_def Let_def split: prod.splits)


lemma boot_point_all:
  "(\<forall>p. P p) = (P B_create_exchange \<and> P B_exchange_init \<and> P B_create_strategy
     \<and> P B_strategy_init \<and> P B_create_webserver \<and> P B_webserver_init
     \<and> P B_register_strategy \<and> P B_webserver_start \<and> P B_strategy_start \<and> P B_main_loop)"
proof
  assume a: "P B_create_exchange \<and> P B_exchange_init \<and> P B_create_strategy
     \<and> P B_strategy_init \<and> P B_create_webserver \<and> P B_webserver_init
     \<and> P B_register_strategy \<and> P B_webserver_start \<and> P B_strategy_start \<and> P B_main_loop"
  show "\<forall>p. P p"
  proof
    fix p show "P p" using a by (cases p) simp_all
  qed
qed simp

lemma loop_entry_trace:
  "startup_ok b \<Longrightarrow>
   trace (loop_entry b) =
     [Signal_Install SIGINT, Signal_Install SIGTERM] @
     signal_logs (boot_signals b B_create_exchange) @ [Create_Exchange EXCHANGE_OKEX] @
     signal_logs (boot_signals b B_exchange_init) @
     [Exchange_Init (create_exchange_ret b) ex_config] @
     signal_logs (boot_signals b B_create_strategy) @ [Create_Strategy ''arbitrage''] @
     signal_logs (boot_signals b B_strategy_init) @
     [Strategy_Init (create_strategy_ret b) st_config] @
     signal_logs (boot_signals b B_create_webserver) @ [Create_Webserver] @
     signal_logs (boot_signals b B_webserver_init) @
     [Webserver_Init (create_webserver_ret b) web_config] @
     signal_logs (boot_signals b B_register_strategy) @
     [Register_Strategy (create_webserver_ret b) (create_strategy_ret b)] @
     signal_logs (boot_signals b B_webserver_start) @
     [Webserver_Start (create_webserver_ret b)] @
     signal_logs (boot_signals b B_strategy_start) @
     [Strategy_Start (create_strategy_ret b)] @
     [Log (''Quantitative trading framework started'' @ newline)] @
     signal_logs (boot_signals b B_main_loop)"
  by (simp add: loop_entry_def init_framework_def startup_ok_def Let_def initial_state_def)

lemma loop_entry_pointers:
  "startup_ok b \<Longrightarrow> g_exchange (loop_entry b) = create_exchange_ret b"
  "startup_ok b \<Longrightarrow> g_strategy (loop_entry b) = create_strategy_ret b"
  "startup_ok b \<Longrightarrow> g_webserver (loop_entry b) = create_webserver_ret b"
  by (simp_all add: loop_entry_def init_framework_def startup_ok_def Let_def)

lemma loop_entry_running:
  "startup_ok b \<Longrightarrow>
   g_running (loop_entry b) = (if \<forall>p. boot_signals b p = [] then 1 else 0)"
  unfolding boot_point_all
  by (simp add: loop_entry_def init_framework_def startup_ok_def Let_def initial_state_def)

lemma main_loop_stopped: "g_running s = 0 \<Longrightarrow> main_loop cs s = (True, s)"
  by (cases cs) simp_all

lemma main_loop_pointers [simp]:
  "g_exchange (snd (main_loop cs s)) = g_exchange s"
  "g_strategy (snd (main_loop cs s)) = g_strategy s"
  "g_webserver (snd (main_loop cs s)) = g_webserver s"
  by (induction cs arbitrary: s) simp_all

text \<open>The loop exits exactly when the flag is clear at entry or a signal arrives in a cycle.\<close>

lemma main_loop_exits:
  "fst (main_loop cs s) = (g_running s = 0 \<or> (\<exists>c \<in> set cs. \<exists>q. signals c q \<noteq> []))"
proof (induction cs arbitrary: s)
  case Nil
  show ?case by simp
next
  case (Cons e es)
  show ?case using Cons.IH [of "cycle e s"] by (auto simp: cycle_running)
qed

lemma cycle_added:
  "added s (cycle e s) =
     signal_logs (signals e L_get_depth) @ [Get_Depth (g_exchange s) ''BTC_USDT''] @
     signal_logs (signals e L_on_tick) @
     (if get_depth_ret e = 0 then [On_Tick (g_strategy s) (depth_out e) 1] else []) @
     signal_logs (signals e L_get_account) @ [Get_Account (g_exchange s)] @
     signal_logs (signals e L_on_account) @
     (if get_account_ret e = 0 then [On_Account (g_strategy s) (account_out e)] else []) @
     signal_logs (signals e L_get_stats) @ [Get_Stats (g_strategy s)] @
     signal_logs (signals e L_broadcast) @
     [Broadcast (g_webserver s) (snLogf 256 (status_format (stats_out e)))] @
     signal_logs (signals e L_usleep) @ [Usleep 100000] @
     signal_logs (signals e L_loop_test)"
  by (simp add: added_def cycle_trace)

lemma main_loop_filter:
  assumes "\<And>c t. filter P (added t (cycle c t)) = []"
  shows "filter P (trace (snd (main_loop cs s))) = filter P (trace s)"
  by (simp add: main_loop_trace filter_concat comp_def split_def assms)

lemma filter_signal_logs [simp]:
  "filter is_create (signal_logs sigs) = []"
  "filter is_teardown (signal_logs sigs) = []"
  "filter is_cycle_call (signal_logs sigs) = []"
  "filter bad_depth_args (signal_logs sigs) = []"
  by (simp_all add: signal_logs_def is_create_def is_teardown_def is_cycle_call_def
      bad_depth_args_def)

lemma main_loop_create [simp]:
  "filter is_create (trace (snd (main_loop cs s))) = filter is_create (trace s)"
  by (rule main_loop_filter) (simp add: cycle_added is_create_def)

lemma main_loop_teardown [simp]:
  "filter is_teardown (trace (snd (main_loop cs s))) = filter is_teardown (trace s)"
  by (rule main_loop_filter) (simp add: cycle_added is_teardown_def)

lemma main_loop_depth_args [simp]:
  "filter bad_depth_args (trace (snd (main_loop cs s))) = filter bad_depth_args (trace s)"
  by (rule main_loop_filter) (simp add: cycle_added bad_depth_args_def)

lemma teardown_filters [simp]:
  "filter is_create (teardown s) = []"
  "filter is_teardown (teardown s) = teardown s"
  "filter is_cycle_call (teardown s) = []"
  "filter bad_depth_args (teardown s) = []"
  by (simp_all add: teardown_def is_create_def is_teardown_def is_cycle_call_def bad_depth_args_def)

lemma main_prog_fails:
  assumes "\<not> startup_ok b"
  shows "\<exists>t. snd (main_prog b cs) = cleanup t
     \<and> filter is_teardown (trace t) = []
     \<and> filter is_create (trace t) = creations b
     \<and> filter bad_depth_args (trace t) = []
     \<and> take 2 (trace t) = [Signal_Install SIGINT, Signal_Install SIGTERM]
     \<and> g_exchange t = create_exchange_ret b
     \<and> g_strategy t = (if exchange_up b then create_strategy_ret b else 0)
     \<and> g_webserver t = (if exchange_up b \<and> strategy_up b then create_webserver_ret b else 0)"
proof -
  note defs = main_prog_def init_framework_def Let_def initial_state_def creations_def
    exchange_up_def strategy_up_def is_teardown_def is_create_def bad_depth_args_def
  consider
      (no_exchange) "create_exchange_ret b = 0"
    | (exchange_init) "create_exchange_ret b \<noteq> 0" "exchange_init_ret b \<noteq> 0"
    | (no_strategy) "create_exchange_ret b \<noteq> 0" "exchange_init_ret b = 0"
        "create_strategy_ret b = 0"
    | (strategy_init) "create_exchange_ret b \<noteq> 0" "exchange_init_ret b = 0"
        "create_strategy_ret b \<noteq> 0" "strategy_init_ret b \<noteq> 0"
    | (no_webserver) "create_exchange_ret b \<noteq> 0" "exchange_init_ret b = 0"
        "create_strategy_ret b \<noteq> 0" "strategy_init_ret b = 0" "create_webserver_ret b = 0"
    | (webserver_init) "create_exchange_ret b \<noteq> 0" "exchange_init_ret b = 0"
        "create_strategy_ret b \<noteq> 0" "strategy_init_ret b = 0" "create_webserver_ret b \<noteq> 0"
        "webserver_init_ret b \<noteq> 0"
    | (webserver_start) "create_exchange_ret b \<noteq> 0" "exchange_init_ret b = 0"
        "create_strategy_ret b \<noteq> 0" "strategy_init_ret b = 0" "create_webserver_ret b \<noteq> 0"
        "webserver_init_ret b = 0" "webserver_start_ret b \<noteq> 0"
    | (strategy_start) "create_exchange_ret b \<noteq> 0" "exchange_init_ret b = 0"
        "create_strategy_ret b \<noteq> 0" "strategy_init_ret b = 0" "create_webserver_ret b \<noteq> 0"
        "webserver_init_ret b = 0" "webserver_start_ret b = 0" "strategy_start_ret b \<noteq> 0"
    using assms unfolding startup_ok_def by blast
  then show ?thesis
  proof cases
    case no_exchange
    then show ?thesis by (auto simp: defs)
  next
    case exchange_init
    then show ?thesis by (auto simp: defs)
  next
    case no_strategy
    then show ?thesis by (auto simp: defs)
  next
    case strategy_init
    then show ?thesis by (auto simp: defs)
  next
    case no_webserver
    then show ?thesis by (auto simp: defs)
  next
    case webserver_init
    then show ?thesis by (auto simp: defs)
  next
    case webserver_start
    then show ?thesis by (auto simp: defs)
  next
    case strategy_start
    then show ?thesis by (auto simp: defs)
  qed
qed

lemma main_prog_returns:
  assumes "fst (main_prog b cs) = Some c"
  shows "\<exists>t. snd (main_prog b cs) = cleanup t
     \<and> filter is_teardown (trace t) = []
     \<and> filter is_create (trace t) = creations b
     \<and> filter bad_depth_args (trace t) = []
     \<and> take 2 (trace t) = [Signal_Install SIGINT, Signal_Install SIGTERM]
     \<and> g_exchange t = create_exchange_ret b
     \<and> g_strategy t = (if exchange_up b then create_strategy_ret b else 0)
     \<and> g_webserver t = (if exchange_up b \<and> strategy_up b then create_webserver_ret b else 0)"
proof (cases "startup_ok b")
  case True
  have up: "exchange_up b" "strategy_up b"
    using True by (simp_all add: startup_ok_def exchange_up_def strategy_up_def)
  have "snd (main_prog b cs) = cleanup (snd (main_loop cs (loop_entry b)))"
    using True assms by (simp add: main_prog_started split: if_splits)
  moreover have "filter is_teardown (trace (loop_entry b)) = []"
    "filter is_create (trace (loop_entry b)) = creations b"
    "filter bad_depth_args (trace (loop_entry b)) = []"
    using True up
    by (simp_all add: loop_entry_trace creations_def is_teardown_def is_create_def
        bad_depth_args_def)
  moreover have "take 2 (trace (snd (main_loop cs (loop_entry b)))) =
      [Signal_Install SIGINT, Signal_Install SIGTERM]"
    using True by (simp add: main_loop_trace loop_entry_trace)
  ultimately show ?thesis using True up
    by (intro exI [of _ "snd (main_loop cs (loop_entry b))"]) (simp add: loop_entry_pointers)
next
  case False
  then show ?thesis by (rule main_prog_fails)
qed

lemma main_prog_depth_args: "filter bad_depth_args (trace (snd (main_prog b cs))) = []"
proof (cases "fst (main_prog b cs)")
  case (Some c)
  then obtain t where "snd (main_prog b cs) = cleanup t" "filter bad_depth_args (trace t) = []"
    using main_prog_returns by blast
  then show ?thesis by simp
next
  case None
  then have ok: "startup_ok b" using main_prog_failed [of b cs] by auto
  then have "snd (main_prog b cs) = snd (main_loop cs (loop_entry b))"
    using None by (simp add: main_prog_started split: if_splits)
  then show ?thesis using ok by (simp add: loop_entry_trace bad_depth_args_def)
qed

text \<open>Every run of \<open>main\<close> starts by installing the handler for the two signals.\<close>

lemma main_prog_installs_handlers:
  "take 2 (trace (snd (main_prog b cs))) = [Signal_Install SIGINT, Signal_Install SIGTERM]"
proof (cases "fst (main_prog b cs)")
  case (Some c)
  then obtain t where "snd (main_prog b cs) = cleanup t"
    "take 2 (trace t) = [Signal_Install SIGINT, Signal_Install SIGTERM]"
    using main_prog_returns by blast
  moreover from this have "2 \<le> length (trace t)"
    by (metis length_take min.cobounded1 length_Cons list.size(3) One_nat_def Suc_1)
  ultimately show ?thesis by simp
next
  case None
  then have ok: "startup_ok b" using main_prog_failed [of b cs] by auto
  then have "snd (main_prog b cs) = snd (main_loop cs (loop_entry b))"
    using None by (simp add: main_prog_started split: if_splits)
  then show ?thesis using ok by (simp add: main_loop_trace loop_entry_trace)
qed

subsection \<open>The status text\<close>

lemma is_broadcast_simps [simp]:
  "is_broadcast (Broadcast p t)" "\<not> is_broadcast (Log m)" "\<not> is_broadcast (Get_Depth p nm)"
  "\<not> is_broadcast (On_Tick p d n)" "\<not> is_broadcast (Get_Account p)"
  "\<not> is_broadcast (On_Account p a)" "\<not> is_broadcast (Get_Stats p)" "\<not> is_broadcast (Usleep k)"
  by (simp_all add: is_broadcast_def)

lemma filter_broadcast_signal_logs [simp]: "filter is_broadcast (signal_logs sigs) = []"
  by (simp add: signal_logs_def is_broadcast_def)

lemma cycle_broadcasts:
  "filter is_broadcast (added s (cycle e s)) =
     [Broadcast (g_webserver s) (take 255 (status_format (stats_out e)))]"
  by (simp add: added_def cycle_trace snLogf_def)

lemma dec_length: "0 \<le> n \<Longrightarrow> n < 10 ^ k \<Longrightarrow> 0 < k \<Longrightarrow> length (dec n) \<le> k"
proof (induction n arbitrary: k rule: dec.induct)
  case (1 n)
  show ?case
  proof (cases "n < 10")
    case True
    then show ?thesis using "1.prems" by (simp add: dec.simps [of n])
  next
    case False
    then obtain j where k: "k = Suc j" and j: "0 < j"
      using "1.prems" by (cases k; cases "k - 1") auto
    have "n div 10 < 10 ^ j" using "1.prems" k by simp
    moreover have "0 \<le> n div 10" using "1.prems" by simp
    ultimately have "length (dec (n div 10)) \<le> j" using "1.IH" False j by simp
    then show ?thesis using False k by (simp add: dec.simps [of n])
  qed
qed

lemma fmt_d_length: "length (fmt_d w) \<le> 11"
proof -
  have r: "- (2 ^ 31) \<le> sint w" "sint w < 2 ^ 31"
    using sint_ge [of w] sint_lt [of w] by simp_all
  show ?thesis
  proof (cases "sint w < 0")
    case True
    have "length (dec (- sint w)) \<le> 10"
      by (rule dec_length) (use r True in simp_all)
    then show ?thesis using True by (simp add: fmt_d_def)
  next
    case False
    have "length (dec (sint w)) \<le> 10"
      by (rule dec_length) (use r False in simp_all)
    then show ?thesis using False by (simp add: fmt_d_def)
  qed
qed

lemma status_format_length:
  "length (status_format st) =
     43 + length (fmt_f2 (total_profit st)) + length (fmt_f2 (daily_profit st))
        + length (fmt_d (total_trades st))"
  by (simp add: status_format_def quoted_def)

lemma dec_length_lower: "10 ^ k \<le> n \<Longrightarrow> k < length (dec n)"
proof (induction n arbitrary: k rule: dec.induct)
  case (1 n)
  show ?case
  proof (cases k)
    case 0
    then show ?thesis by (simp add: dec.simps [of n])
  next
    case (Suc j)
    have p: "(1::int) \<le> 10 ^ j" by simp
    have q: "10 * 10 ^ j \<le> n" using "1.prems" Suc by simp
    have big: "\<not> n < 10" using p q by linarith
    have "10 ^ j \<le> n div 10" using q by linarith
    then have "j < length (dec (n div 10))" using "1.IH" big by simp
    then show ?thesis using big Suc by (simp add: dec.simps [of n])
  qed
qed

section \<open>The claims\<close>

text \<open>
  C1. Every iteration of the loop makes its calls in one fixed order: the depth poll; the
  delivery of the snapshot to \<open>on_tick\<close> if the poll returned 0; the account poll; the
  delivery to \<open>on_account\<close> if that poll returned 0; the read of the statistics; the
  broadcast of the status text built from them; the sleep of 100000 microseconds, after
  which the next iteration starts. The first equation is one iteration from any state;
  the second says that the loop's events are the events of its iterations in sequence.
\<close>

theorem cycle_steps_in_order:
  "calls (added s (cycle e s)) =
     [Get_Depth (g_exchange s) ''BTC_USDT''] @
     (if get_depth_ret e = 0 then [On_Tick (g_strategy s) (depth_out e) 1] else []) @
     [Get_Account (g_exchange s)] @
     (if get_account_ret e = 0 then [On_Account (g_strategy s) (account_out e)] else []) @
     [Get_Stats (g_strategy s),
      Broadcast (g_webserver s) (snLogf 256 (status_format (stats_out e))),
      Usleep 100000]
   \<and> added s0 (snd (main_loop cs s0)) =
       concat (map (\<lambda>(c, t). added t (cycle c t)) (cycle_starts cs s0))"
proof
  show "calls (added s (cycle e s)) =
     [Get_Depth (g_exchange s) ''BTC_USDT''] @
     (if get_depth_ret e = 0 then [On_Tick (g_strategy s) (depth_out e) 1] else []) @
     [Get_Account (g_exchange s)] @
     (if get_account_ret e = 0 then [On_Account (g_strategy s) (account_out e)] else []) @
     [Get_Stats (g_strategy s),
      Broadcast (g_webserver s) (snLogf 256 (status_format (stats_out e))),
      Usleep 100000]"
    unfolding cycle_added by simp
  show "added s0 (snd (main_loop cs s0)) =
       concat (map (\<lambda>(c, t). added t (cycle c t)) (cycle_starts cs s0))"
    by (rule main_loop_added)
qed

theorem cycle_steps_in_order_witness:
  "calls (added started_state (snd (main_loop [good_cycle, good_cycle] started_state))) =
     [Get_Depth 0x1000 ''BTC_USDT'', On_Tick 0x2000 sample_depth 1, Get_Account 0x1000,
      On_Account 0x2000 sample_account, Get_Stats 0x2000,
      Broadcast 0x3000 (snLogf 256 (status_format sample_stats)), Usleep 100000,
      Get_Depth 0x1000 ''BTC_USDT'', On_Tick 0x2000 sample_depth 1, Get_Account 0x1000,
      On_Account 0x2000 sample_account, Get_Stats 0x2000,
      Broadcast 0x3000 (snLogf 256 (status_format sample_stats)), Usleep 100000]"
proof -
  have run: "g_running started_state \<noteq> 0" "g_running (cycle good_cycle started_state) \<noteq> 0"
    by (simp_all add: cycle_running) (simp_all add: started_state_def good_cycle_def)
  have ptrs: "g_exchange started_state = 0x1000" "g_strategy started_state = 0x2000"
    "g_webserver started_state = 0x3000"
    by (simp_all add: started_state_def)
  have env: "get_depth_ret good_cycle = 0" "get_account_ret good_cycle = 0"
    "depth_out good_cycle = sample_depth" "account_out good_cycle = sample_account"
    "stats_out good_cycle = sample_stats"
    by (simp_all add: good_cycle_def)
  show ?thesis
    using cycle_steps_in_order [of started_state good_cycle started_state
        "[good_cycle, good_cycle]"]
      cycle_steps_in_order [of "cycle good_cycle started_state" good_cycle]
    by (simp add: run ptrs env)
qed

text \<open>
  C2. \<open>main\<close> installs the handler for the interrupt and the terminate signal before
  anything else. The handler clears \<open>g_running\<close>, and a second signal leaves the flag as
  the first one left it. The loop reads the flag only in the test that starts a cycle: when a
  signal arrives at any point \<open>p\<close> of a cycle that has started, the loop runs that cycle
  to its end, with all its calls up to the broadcast and the sleep, and then exits
  without starting another cycle, whatever cycles \<open>es\<close> the environment would still
  answer.
\<close>

theorem signal_stops_after_current_cycle:
  "take 2 (trace (snd (main_prog b cs))) = [Signal_Install SIGINT, Signal_Install SIGTERM]
   \<and> g_running (handle_signal sg s) = 0
   \<and> g_running (handle_signal sg' (handle_signal sg s)) = g_running (handle_signal sg s)
   \<and> (g_running s \<noteq> 0 \<and> signals e p \<noteq> [] \<longrightarrow>
        main_loop (e # es) s = (True, cycle e s)
        \<and> calls (added s (cycle e s)) =
            [Get_Depth (g_exchange s) ''BTC_USDT''] @
            (if get_depth_ret e = 0 then [On_Tick (g_strategy s) (depth_out e) 1] else []) @
            [Get_Account (g_exchange s)] @
            (if get_account_ret e = 0 then [On_Account (g_strategy s) (account_out e)] else []) @
            [Get_Stats (g_strategy s),
             Broadcast (g_webserver s) (snLogf 256 (status_format (stats_out e))),
             Usleep 100000])"
proof -
  have "main_loop (e # es) s = (True, cycle e s)" if "g_running s \<noteq> 0" "signals e p \<noteq> []"
  proof -
    have "g_running (cycle e s) = 0" using that(2) by (auto simp: cycle_running)
    then show ?thesis using that(1) by (simp add: main_loop_stopped)
  qed
  then show ?thesis by (simp add: cycle_added main_prog_installs_handlers)
qed

text \<open>
  C2 on a run: two interrupts arrive back to back before the account poll of the first
  cycle; the loop completes that cycle and does not run the second one.
\<close>

theorem signal_stops_after_current_cycle_witness:
  "take 2 (trace (snd (main_prog good_boot []))) = [Signal_Install 2, Signal_Install 15]
   \<and> g_running (handle_signal SIGINT (handle_signal SIGINT started_state)) = 0
   \<and> main_loop [interrupted_cycle, good_cycle] started_state
       = (True, cycle interrupted_cycle started_state)
   \<and> calls (trace (snd (main_loop [interrupted_cycle, good_cycle] started_state))) =
       [Get_Depth 0x1000 ''BTC_USDT'', On_Tick 0x2000 sample_depth 1, Get_Account 0x1000,
        On_Account 0x2000 sample_account, Get_Stats 0x2000,
        Broadcast 0x3000 (snLogf 256 (status_format sample_stats)), Usleep 100000]"
proof -
  have h: "g_running started_state \<noteq> 0 \<and> signals interrupted_cycle L_get_account \<noteq> []"
    by (simp add: started_state_def interrupted_cycle_def)
  have t: "trace started_state = []" by (simp add: started_state_def)
  show ?thesis
    using signal_stops_after_current_cycle [where sg = SIGINT and s = started_state
        and sg' = SIGINT and e = interrupted_cycle and p = L_get_account
        and es = "[good_cycle]" and b = good_boot and cs = "[]"] h
    by (simp add: added_def t)
      (simp add: started_state_def interrupted_cycle_def good_cycle_def SIGINT_def SIGTERM_def)
qed

text \<open>
  C3. When the depth poll of a cycle returns a value other than 0, the cycle polls the
  depth once only (no retry) and still makes the account poll, the read of the
  statistics, the broadcast and the sleep.
\<close>

theorem depth_failure_keeps_cycle_going:
  "get_depth_ret e \<noteq> 0 \<Longrightarrow>
   calls (added s (cycle e s)) =
     [Get_Depth (g_exchange s) ''BTC_USDT'', Get_Account (g_exchange s)] @
     (if get_account_ret e = 0 then [On_Account (g_strategy s) (account_out e)] else []) @
     [Get_Stats (g_strategy s),
      Broadcast (g_webserver s) (snLogf 256 (status_format (stats_out e))),
      Usleep 100000]"
proof -
  assume failed: "get_depth_ret e \<noteq> 0"
  show ?thesis unfolding cycle_added using failed by simp
qed

text \<open>C3 on a cycle whose depth poll returns -1.\<close>

theorem depth_failure_keeps_cycle_going_witness:
  "get_depth_ret (good_cycle\<lparr>get_depth_ret := - 1\<rparr>) \<noteq> 0
   \<and> calls (added started_state (cycle (good_cycle\<lparr>get_depth_ret := - 1\<rparr>) started_state)) =
       [Get_Depth 0x1000 ''BTC_USDT'', Get_Account 0x1000, On_Account 0x2000 sample_account,
        Get_Stats 0x2000, Broadcast 0x3000 (snLogf 256 (status_format sample_stats)),
        Usleep 100000]"
proof -
  have h: "get_depth_ret (good_cycle\<lparr>get_depth_ret := - 1\<rparr>) \<noteq> 0" by simp
  show ?thesis
    using depth_failure_keeps_cycle_going [OF h, where s = started_state] h
    by (simp add: started_state_def good_cycle_def)
qed

text \<open>
  C4. \<open>main\<close> returns 1 when a startup step fails: a constructor returns \<open>NULL\<close>, or an
  \<open>init\<close> or \<open>start\<close> entry returns a value other than 0. When every startup step
  succeeds, \<open>main\<close> returns 0 once a signal has arrived, during startup or in a cycle; as
  long as none has arrived the loop is still running and \<open>main\<close> has not returned.
\<close>

theorem exit_codes:
  "(\<not> startup_ok b \<longrightarrow> fst (main_prog b cs) = Some 1)
   \<and> (startup_ok b \<and> boot_signals b p \<noteq> [] \<longrightarrow> fst (main_prog b cs) = Some 0)
   \<and> (startup_ok b \<and> c \<in> set cs \<and> signals c q \<noteq> [] \<longrightarrow> fst (main_prog b cs) = Some 0)
   \<and> (startup_ok b \<and> (\<forall>p. boot_signals b p = []) \<and> (\<forall>c \<in> set cs. \<forall>q. signals c q = [])
        \<longrightarrow> fst (main_prog b cs) = None)"
proof (cases "startup_ok b")
  case False
  then show ?thesis by (simp add: main_prog_failed)
next
  case True
  have "fst (main_prog b cs) = (if fst (main_loop cs (loop_entry b)) then Some 0 else None)"
    using True by (simp add: main_prog_started)
  then show ?thesis using True
    by (auto simp: main_loop_exits loop_entry_running)
qed

text \<open>
  C4 on three runs: the strategy's \<open>init\<close> fails; startup succeeds and interrupts arrive
  in the second cycle; startup succeeds and no signal arrives in two cycles.
\<close>

theorem exit_codes_witness:
  "fst (main_prog failing_boot [good_cycle]) = Some 1
   \<and> fst (main_prog good_boot [good_cycle, interrupted_cycle, good_cycle]) = Some 0
   \<and> fst (main_prog good_boot [good_cycle, good_cycle]) = None"
proof -
  have bad: "\<not> startup_ok failing_boot"
    by (simp add: startup_ok_def failing_boot_def)
  have ok: "startup_ok good_boot"
    by (simp add: startup_ok_def good_boot_def)
  have sg: "interrupted_cycle \<in> set [good_cycle, interrupted_cycle, good_cycle]"
    "signals interrupted_cycle L_get_account \<noteq> []"
    by (simp_all add: interrupted_cycle_def)
  have quiet: "\<forall>p. boot_signals good_boot p = []"
    "\<forall>c \<in> set [good_cycle, good_cycle]. \<forall>q. signals c q = []"
    by (simp_all add: good_boot_def good_cycle_def)
  show ?thesis
    using exit_codes [where b = failing_boot and cs = "[good_cycle]"]
      exit_codes [where b = good_boot and cs = "[good_cycle, interrupted_cycle, good_cycle]"
        and c = interrupted_cycle and q = L_get_account]
      exit_codes [where b = good_boot and cs = "[good_cycle, good_cycle]"]
      bad ok sg quiet
    by simp
qed

text \<open>
  C5. In every run of \<open>main\<close>, whether it has returned or is still in its loop, the
  constructors have been called in the order exchange, strategy, sink (each only when the
  component before it is up), and a pointer is not \<open>NULL\<close> exactly when the component's
  constructor was called and returned a pointer. On every path on which \<open>main\<close> returns,
  the trace ends with the teardown: sink, strategy, exchange, a component being cleaned up
  and destroyed exactly when its pointer is not \<open>NULL\<close>, with no teardown call before
  that. While the loop is still running nothing has been torn down.
\<close>

theorem construction_and_teardown_order:
  "filter is_create (trace (snd (main_prog b cs))) = creations b
   \<and> g_exchange (snd (main_prog b cs)) = create_exchange_ret b
   \<and> g_strategy (snd (main_prog b cs)) = (if exchange_up b then create_strategy_ret b else 0)
   \<and> g_webserver (snd (main_prog b cs)) =
       (if exchange_up b \<and> strategy_up b then create_webserver_ret b else 0)
   \<and> (fst (main_prog b cs) = Some c \<longrightarrow>
        (\<exists>pre. trace (snd (main_prog b cs)) = pre @ teardown (snd (main_prog b cs))
           \<and> filter is_teardown pre = []))
   \<and> (fst (main_prog b cs) = None \<longrightarrow>
        filter is_teardown (trace (snd (main_prog b cs))) = [])"
proof (cases "fst (main_prog b cs)")
  case (Some c')
  then obtain t where t: "snd (main_prog b cs) = cleanup t"
    "filter is_teardown (trace t) = []" "filter is_create (trace t) = creations b"
    "g_exchange t = create_exchange_ret b"
    "g_strategy t = (if exchange_up b then create_strategy_ret b else 0)"
    "g_webserver t = (if exchange_up b \<and> strategy_up b then create_webserver_ret b else 0)"
    using main_prog_returns by blast
  have same: "teardown (cleanup t) = teardown t" by (simp add: teardown_def)
  have "trace (cleanup t) = trace t @ teardown (cleanup t)" by (simp add: same)
  then have "\<exists>pre. trace (cleanup t) = pre @ teardown (cleanup t) \<and> filter is_teardown pre = []"
    using t(2) by blast
  then show ?thesis using t Some by simp
next
  case None
  then have ok: "startup_ok b" using main_prog_failed [of b cs] by auto
  then have up: "exchange_up b" "strategy_up b"
    by (simp_all add: startup_ok_def exchange_up_def strategy_up_def)
  have run: "snd (main_prog b cs) = snd (main_loop cs (loop_entry b))"
    using ok None by (simp add: main_prog_started split: if_splits)
  have made: "filter is_create (trace (loop_entry b)) = creations b"
    using ok up by (simp add: loop_entry_trace creations_def is_create_def)
  have kept: "filter is_teardown (trace (loop_entry b)) = []"
    using ok by (simp add: loop_entry_trace is_teardown_def)
  show ?thesis using None ok up made kept by (simp add: run loop_entry_pointers)
qed

text \<open>
  C5 on three runs. When the strategy's \<open>init\<close> fails, the exchange and the strategy have
  been constructed and the sink has not: the strategy is torn down, then the exchange.
  After a shutdown by a signal all three are torn down: sink, strategy, exchange. In a
  run that is still in its loop, after one cycle without a signal, all three have been
  constructed in order and none is torn down.
\<close>

theorem construction_and_teardown_order_witness:
  "fst (main_prog failing_boot []) = Some 1
   \<and> filter is_create (trace (snd (main_prog failing_boot []))) =
       [Create_Exchange EXCHANGE_OKEX, Create_Strategy ''arbitrage'']
   \<and> filter is_teardown (trace (snd (main_prog failing_boot []))) =
       [Strategy_Cleanup 0x2000, Destroy_Strategy 0x2000,
        Exchange_Cleanup 0x1000, Destroy_Exchange 0x1000]
   \<and> fst (main_prog good_boot [interrupted_cycle]) = Some 0
   \<and> filter is_create (trace (snd (main_prog good_boot [interrupted_cycle]))) =
       [Create_Exchange EXCHANGE_OKEX, Create_Strategy ''arbitrage'', Create_Webserver]
   \<and> filter is_teardown (trace (snd (main_prog good_boot [interrupted_cycle]))) =
       [Webserver_Cleanup 0x3000, Destroy_Webserver 0x3000,
        Strategy_Cleanup 0x2000, Destroy_Strategy 0x2000,
        Exchange_Cleanup 0x1000, Destroy_Exchange 0x1000]
   \<and> fst (main_prog good_boot [good_cycle]) = None
   \<and> filter is_create (trace (snd (main_prog good_boot [good_cycle]))) =
       [Create_Exchange EXCHANGE_OKEX, Create_Strategy ''arbitrage'', Create_Webserver]
   \<and> filter is_teardown (trace (snd (main_prog good_boot [good_cycle]))) = []"
proof -
  have f: "fst (main_prog failing_boot []) = Some 1"
    using main_prog_failed [of failing_boot "[]"]
    by (simp add: startup_ok_def failing_boot_def)
  have ok: "startup_ok good_boot"
    by (simp add: startup_ok_def good_boot_def)
  have "signals interrupted_cycle L_get_account \<noteq> []"
    by (simp add: interrupted_cycle_def)
  then have "fst (main_loop [interrupted_cycle] (loop_entry good_boot))"
    unfolding main_loop_exits by auto
  then have g: "fst (main_prog good_boot [interrupted_cycle]) = Some 0"
    using ok by (simp add: main_prog_started)
  have "g_running (loop_entry good_boot) \<noteq> 0"
    using ok by (simp add: loop_entry_running) (simp add: good_boot_def)
  then have "\<not> fst (main_loop [good_cycle] (loop_entry good_boot))"
    unfolding main_loop_exits by (simp add: good_cycle_def)
  then have r: "fst (main_prog good_boot [good_cycle]) = None"
    using ok by (simp add: main_prog_started)
  have up: "exchange_up failing_boot" "\<not> strategy_up failing_boot"
    "exchange_up good_boot" "strategy_up good_boot"
    by (simp_all add: exchange_up_def strategy_up_def failing_boot_def good_boot_def)
  have vals: "create_exchange_ret failing_boot = 0x1000"
    "create_strategy_ret failing_boot = 0x2000"
    "create_exchange_ret good_boot = 0x1000" "create_strategy_ret good_boot = 0x2000"
    "create_webserver_ret good_boot = 0x3000"
    by (simp_all add: failing_boot_def good_boot_def)
  from construction_and_teardown_order [where b = failing_boot and cs = "[]" and c = 1] f
  have 1: "filter is_create (trace (snd (main_prog failing_boot []))) =
       [Create_Exchange EXCHANGE_OKEX, Create_Strategy ''arbitrage'']
     \<and> filter is_teardown (trace (snd (main_prog failing_boot []))) =
       [Strategy_Cleanup 0x2000, Destroy_Strategy 0x2000,
        Exchange_Cleanup 0x1000, Destroy_Exchange 0x1000]"
    by (auto simp: creations_def up vals teardown_def is_create_def is_teardown_def)
  from construction_and_teardown_order
    [where b = good_boot and cs = "[interrupted_cycle]" and c = 0] g
  have 2: "filter is_create (trace (snd (main_prog good_boot [interrupted_cycle]))) =
       [Create_Exchange EXCHANGE_OKEX, Create_Strategy ''arbitrage'', Create_Webserver]
     \<and> filter is_teardown (trace (snd (main_prog good_boot [interrupted_cycle]))) =
       [Webserver_Cleanup 0x3000, Destroy_Webserver 0x3000,
        Strategy_Cleanup 0x2000, Destroy_Strategy 0x2000,
        Exchange_Cleanup 0x1000, Destroy_Exchange 0x1000]"
    by (auto simp: creations_def up vals teardown_def is_create_def is_teardown_def)
  from construction_and_teardown_order [where b = good_boot and cs = "[good_cycle]"] r
  have 3: "filter is_create (trace (snd (main_prog good_boot [good_cycle]))) =
       [Create_Exchange EXCHANGE_OKEX, Create_Strategy ''arbitrage'', Create_Webserver]
     \<and> filter is_teardown (trace (snd (main_prog good_boot [good_cycle]))) = []"
    by (simp add: creations_def up)
  show ?thesis using f g r 1 2 3 by simp
qed

text \<open>
  C6, as the code has it. A cycle broadcasts exactly once. The text it renders from the
  statistics read in that cycle is
  \<^verbatim>\<open>{"total_profit":T,"daily_profit":D,"trades":N}\<close>, where \<open>T\<close> and \<open>D\<close> are the
  \<open>%.2f\<close> renderings of \<open>total_profit\<close> and \<open>daily_profit\<close> and \<open>N\<close> is the \<open>%d\<close>
  rendering of \<open>total_trades\<close>; the payload is that text cut to the 255 characters that
  the 256-byte buffer \<open>status\<close> holds. The payload is the whole text whenever the text
  has at most 255 characters, and it has when \<open>T\<close> and \<open>D\<close> have at most 201 characters
  together.
\<close>

theorem broadcast_once_with_status_text:
  "filter is_broadcast (added s (cycle e s)) =
     [Broadcast (g_webserver s) (take 255 (status_format (stats_out e)))]
   \<and> (length (status_format (stats_out e)) \<le> 255 \<longrightarrow>
        filter is_broadcast (added s (cycle e s)) =
          [Broadcast (g_webserver s) (status_format (stats_out e))])
   \<and> (length (fmt_f2 (total_profit (stats_out e)))
         + length (fmt_f2 (daily_profit (stats_out e))) \<le> 201 \<longrightarrow>
        length (status_format (stats_out e)) \<le> 255)"
  using fmt_d_length [of "total_trades (stats_out e)"]
  by (simp add: cycle_broadcasts status_format_length)

text \<open>
  C6 on a cycle with a total profit of 1234.565, a daily profit of 0.125 and 42 trades:
  the payload is \<^verbatim>\<open>{"total_profit":1234.57,"daily_profit":0.12,"trades":42}\<close>.
\<close>

theorem broadcast_once_with_status_text_witness:
  "length (status_format (stats_out good_cycle)) \<le> 255
   \<and> filter is_broadcast (added started_state (cycle good_cycle started_state)) =
       [Broadcast 0x3000
          (''{'' @ quoted ''total_profit'' @ '':1234.57,'' @ quoted ''daily_profit'' @
           '':0.12,'' @ quoted ''trades'' @ '':42}'')]"
proof -
  have rendered: "status_format sample_stats =
     ''{'' @ quoted ''total_profit'' @ '':1234.57,'' @ quoted ''daily_profit'' @ '':0.12,'' @
     quoted ''trades'' @ '':42}''"
    by code_simp
  have st: "stats_out good_cycle = sample_stats" by (simp add: good_cycle_def)
  have len: "length (status_format (stats_out good_cycle)) \<le> 255"
    by (simp add: st rendered quoted_def)
  show ?thesis
    using broadcast_once_with_status_text [where e = good_cycle and s = started_state] len
    by (simp add: st rendered) (simp add: started_state_def)
qed

text \<open>
  C6 as stated fails when a rendering is long. With a total profit of 1e300 the \<open>%.2f\<close>
  rendering alone has more than 300 characters: the one payload of the cycle is the
  first 255 characters of the status text, shorter than the text, and the text of the
  stated shape is not broadcast.
\<close>

theorem broadcast_payload_cut_short:
  "filter is_broadcast (added started_state (cycle huge_cycle started_state)) =
     [Broadcast 0x3000 (take 255 (status_format huge_stats))]
   \<and> length (take 255 (status_format huge_stats)) < length (status_format huge_stats)
   \<and> Broadcast 0x3000 (status_format huge_stats)
       \<notin> set (added started_state (cycle huge_cycle started_state))"
proof -
  have sign: "\<not> d_sign 0x7E37E43C8800759C"
    by (simp add: d_sign_def)
  have expo: "d_exponent 0x7E37E43C8800759C = 2019"
    by (simp add: d_exponent_def)
  have "(10::int) ^ 300 \<le> d_hundredths 0x7E37E43C8800759C div 100"
    by (simp add: d_hundredths_def d_exponent_def d_fraction_def)
  then have "300 < length (dec (d_hundredths 0x7E37E43C8800759C div 100))"
    by (rule dec_length_lower)
  then have "300 < length (fmt_f2 0x7E37E43C8800759C)"
    by (simp add: fmt_f2_def sign expo Let_def)
  then have long: "255 < length (status_format huge_stats)"
    by (simp add: status_format_length huge_stats_def)
  have one: "filter is_broadcast (added started_state (cycle huge_cycle started_state)) =
     [Broadcast 0x3000 (take 255 (status_format huge_stats))]"
    by (simp add: cycle_broadcasts) (simp add: huge_cycle_def started_state_def)
  have short: "length (take 255 (status_format huge_stats)) < length (status_format huge_stats)"
    using long by simp
  have "Broadcast 0x3000 (status_format huge_stats)
       \<notin> set (added started_state (cycle huge_cycle started_state))"
  proof
    assume "Broadcast 0x3000 (status_format huge_stats)
       \<in> set (added started_state (cycle huge_cycle started_state))"
    then have "Broadcast 0x3000 (status_format huge_stats)
       \<in> set (filter is_broadcast (added started_state (cycle huge_cycle started_state)))"
      by simp
    then have "status_format huge_stats = take 255 (status_format huge_stats)"
      unfolding one by simp
    then show False using short by simp
  qed
  then show ?thesis using one short by simp
qed

text \<open>
  C7, as the code has it. When the depth poll of a cycle returns a value other than 0,
  the cycle does not deliver to \<open>on_tick\<close>; when the account poll does, it does not
  deliver to \<open>on_account\<close>. Neither failure is logged: the log lines of a cycle are the
  lines of the signal handler, one for each signal that arrives in the cycle, and no
  other.
\<close>

theorem failed_poll_skipped_without_log:
  "(get_depth_ret e \<noteq> 0 \<longrightarrow> On_Tick p d n \<notin> set (added s (cycle e s)))
   \<and> (get_account_ret e \<noteq> 0 \<longrightarrow> On_Account q a \<notin> set (added s (cycle e s)))
   \<and> filter is_log (added s (cycle e s)) =
       signal_logs (signals e L_get_depth @ signals e L_on_tick @ signals e L_get_account @
         signals e L_on_account @ signals e L_get_stats @ signals e L_broadcast @
         signals e L_usleep @ signals e L_loop_test)"
proof (intro conjI impI)
  assume "get_depth_ret e \<noteq> 0"
  then show "On_Tick p d n \<notin> set (added s (cycle e s))"
    unfolding cycle_added by (auto simp: signal_logs_def)
next
  assume "get_account_ret e \<noteq> 0"
  then show "On_Account q a \<notin> set (added s (cycle e s))"
    unfolding cycle_added by (auto simp: signal_logs_def)
next
  show "filter is_log (added s (cycle e s)) =
       signal_logs (signals e L_get_depth @ signals e L_on_tick @ signals e L_get_account @
         signals e L_on_account @ signals e L_get_stats @ signals e L_broadcast @
         signals e L_usleep @ signals e L_loop_test)"
    unfolding cycle_added by (simp add: signal_logs_def)
qed

text \<open>C7 on a cycle in which both polls return -1 and no signal arrives.\<close>

theorem failed_poll_skipped_without_log_witness:
  "get_depth_ret failed_polls_cycle \<noteq> 0 \<and> get_account_ret failed_polls_cycle \<noteq> 0
   \<and> On_Tick 0x2000 sample_depth 1
       \<notin> set (added started_state (cycle failed_polls_cycle started_state))
   \<and> On_Account 0x2000 sample_account
       \<notin> set (added started_state (cycle failed_polls_cycle started_state))
   \<and> added started_state (cycle failed_polls_cycle started_state) =
       [Get_Depth 0x1000 ''BTC_USDT'', Get_Account 0x1000, Get_Stats 0x2000,
        Broadcast 0x3000 (snLogf 256 (status_format sample_stats)), Usleep 100000]"
proof -
  have h: "get_depth_ret failed_polls_cycle \<noteq> 0" "get_account_ret failed_polls_cycle \<noteq> 0"
    by (simp_all add: failed_polls_cycle_def)
  have c: "added started_state (cycle failed_polls_cycle started_state) =
       [Get_Depth 0x1000 ''BTC_USDT'', Get_Account 0x1000, Get_Stats 0x2000,
        Broadcast 0x3000 (snLogf 256 (status_format sample_stats)), Usleep 100000]"
    by (simp add: cycle_added)
      (simp add: failed_polls_cycle_def good_cycle_def started_state_def)
  show ?thesis
    using failed_poll_skipped_without_log [where e = failed_polls_cycle
        and s = started_state and p = "0x2000" and d = sample_depth and n = 1
        and q = "0x2000" and a = sample_account] h c
    by simp
qed

text \<open>
  C7 as stated fails: in a cycle in which the depth poll and the account poll both
  return -1, the loop makes no call of the logger at all.
\<close>

theorem failed_polls_leave_no_log:
  "get_depth_ret failed_polls_cycle \<noteq> 0 \<and> get_account_ret failed_polls_cycle \<noteq> 0
   \<and> filter is_log (added started_state (cycle failed_polls_cycle started_state)) = []"
  by (simp add: cycle_added) (simp add: failed_polls_cycle_def good_cycle_def)



text \<open>
  C9. When \<open>g_running\<close> is 0 at the entry of \<open>main_loop\<close>, the loop exits at once in the
  state in which it was entered: the body runs zero times. So it is when a signal has
  arrived at any point \<open>p\<close> of a successful startup, the handlers being installed first:
  \<open>main\<close> returns 0 and its trace has no depth or account poll, no strategy callback, no
  read of the statistics, no broadcast and no sleep.
\<close>

theorem stopped_before_loop_runs_no_cycle:
  "(g_running s = 0 \<longrightarrow> main_loop cs s = (True, s))
   \<and> (startup_ok b \<and> boot_signals b p \<noteq> [] \<longrightarrow>
        fst (main_prog b cs) = Some 0
        \<and> filter is_cycle_call (trace (snd (main_prog b cs))) = [])"
proof -
  have "fst (main_prog b cs) = Some 0 \<and> filter is_cycle_call (trace (snd (main_prog b cs))) = []"
    if ok: "startup_ok b" and sg: "boot_signals b p \<noteq> []"
  proof -
    have "g_running (loop_entry b) = 0" using ok sg by (auto simp: loop_entry_running)
    then have "main_loop cs (loop_entry b) = (True, loop_entry b)" by (rule main_loop_stopped)
    then have "main_prog b cs = (Some 0, cleanup (loop_entry b))"
      using ok by (simp add: main_prog_started)
    then show ?thesis using ok by (simp add: loop_entry_trace is_cycle_call_def)
  qed
  then show ?thesis by (simp add: main_loop_stopped)
qed

text \<open>
  C9 on a run: a terminate signal arrives during startup, before the strategy's \<open>init\<close>;
  the environment would answer a cycle, and the loop runs none.
\<close>

theorem stopped_before_loop_runs_no_cycle_witness:
  "main_loop [good_cycle] (handle_signal SIGTERM started_state)
     = (True, handle_signal SIGTERM started_state)
   \<and> fst (main_prog signalled_boot [good_cycle]) = Some 0
   \<and> filter is_cycle_call (trace (snd (main_prog signalled_boot [good_cycle]))) = []"
proof -
  have z: "g_running (handle_signal SIGTERM started_state) = 0" by simp
  have ok: "startup_ok signalled_boot"
    by (simp add: startup_ok_def signalled_boot_def good_boot_def)
  have sg: "boot_signals signalled_boot B_strategy_init \<noteq> []"
    by (simp add: signalled_boot_def)
  show ?thesis
    using stopped_before_loop_runs_no_cycle [where s = "handle_signal SIGTERM started_state"
        and cs = "[good_cycle]" and b = signalled_boot and p = B_strategy_init] z ok sg
    by simp
qed

text \<open>
  C10. Every depth poll in a run of \<open>main\<close> is for the symbol \<open>BTC_USDT\<close>, a constant of
  \<open>main_loop\<close>, and every delivery to \<open>on_tick\<close> passes the count 1.
\<close>

theorem depth_poll_arguments_fixed:
  "(Get_Depth p nm \<in> set (trace (snd (main_prog b cs))) \<longrightarrow> nm = ''BTC_USDT'')
   \<and> (On_Tick q d n \<in> set (trace (snd (main_prog b cs))) \<longrightarrow> n = 1)"
proof -
  have none: "ev \<in> set (trace (snd (main_prog b cs))) \<Longrightarrow> \<not> bad_depth_args ev" for ev
    using main_prog_depth_args [of b cs] by (simp add: filter_empty_conv)
  show ?thesis using none [of "Get_Depth p nm"] none [of "On_Tick q d n"]
    by (auto simp: bad_depth_args_def)
qed

text \<open>C10 on a run with one cycle, which has a depth poll and a delivery to \<open>on_tick\<close>.\<close>

theorem depth_poll_arguments_fixed_witness:
  "Get_Depth 0x1000 ''BTC_USDT'' \<in> set (trace (snd (main_prog good_boot [good_cycle])))
   \<and> On_Tick 0x2000 sample_depth 1 \<in> set (trace (snd (main_prog good_boot [good_cycle])))"
proof -
  have ok: "startup_ok good_boot"
    by (simp add: startup_ok_def good_boot_def)
  have run: "g_running (loop_entry good_boot) \<noteq> 0"
    using ok by (simp add: loop_entry_running) (simp add: good_boot_def)
  have "\<not> fst (main_loop [good_cycle] (loop_entry good_boot))"
    unfolding main_loop_exits using run by (simp add: good_cycle_def)
  then have "snd (main_prog good_boot [good_cycle]) = cycle good_cycle (loop_entry good_boot)"
    using ok run by (simp add: main_prog_started)
  then have m: "Get_Depth 0x1000 ''BTC_USDT'' \<in> set (trace (snd (main_prog good_boot [good_cycle])))"
    "On_Tick 0x2000 sample_depth 1 \<in> set (trace (snd (main_prog good_boot [good_cycle])))"
    using ok by (simp_all add: cycle_trace loop_entry_pointers) (simp_all add: good_boot_def good_cycle_def)
  show ?thesis
    using depth_poll_arguments_fixed [where p = "0x1000" and nm = "''BTC_USDT''"
        and b = good_boot and cs = "[good_cycle]" and q = "0x2000" and d = sample_depth
        and n = 1] m
    by simp
qed

end
